theory Spec2Isabelle
  imports Complex_Main "HOL-Library.AList"
begin

section \<open>The game-entry ledger (api/routes/gameEntries.js)\<close>

text \<open>
  A shallow embedding of the ledger routes, of the GameEntry schema
  (api/models/GameEntry.js) and of the Game schema (api/models/Game.js).

  Conventions of the model.
  \<^item> A JavaScript number that is finite is a \<open>rat\<close>, and arithmetic on it is exact
    (the model does not round as IEEE doubles do). A field of a stored document that
    may be missing is an \<open>option\<close>, \<open>None\<close> standing for \<open>undefined\<close>.
  \<^item> The entry and game collections always answer reads and accept writes; the
    history collection may reject a write (\<open>histOk\<close>). The clock and the runtime's
    free-form date parser are inputs (\<open>now\<close>, \<open>parseDate\<close>).
  \<^item> \<open>find(...).sort({createdAt: 1})\<close> is a stable sort of the matching documents by
    \<open>createdAt\<close>; documents with equal stamps keep their order in the collection.
\<close>

subsection \<open>JavaScript values and helpers\<close>

text \<open>A request field that holds a string or a boolean: absent, null, or a value.\<close>

datatype 'a jsval = Undefined | Null | Val 'a

text \<open>
  A request field read as a number. The constructors are the classes of argument that
  \<open>toNumber\<close> tells apart: \<open>undefined\<close>, \<open>null\<close>, the empty string, a value that
  \<open>Number()\<close> converts to the finite number \<open>v\<close>, and any other value (one that
  \<open>Number()\<close> converts to NaN or to an infinity).
\<close>

datatype jsnum = NUndefined | NNull | NEmptyString | NFinite rat | NNotFinite

fun truthy :: "string jsval \<Rightarrow> bool" where
  "truthy (Val s) = (s \<noteq> [])"
| "truthy _ = False"

text \<open>\<open>Boolean(x)\<close> of a boolean field.\<close>

fun Boolean :: "bool jsval \<Rightarrow> bool" where
  "Boolean (Val b) = b"
| "Boolean _ = False"

text \<open>\<open>String(x || "")\<close>.\<close>

fun orEmpty :: "string jsval \<Rightarrow> string" where
  "orEmpty (Val s) = s"
| "orEmpty _ = []"

definition isSpace :: "char \<Rightarrow> bool" where
  "isSpace c = (c \<in> set [CHR '' '', CHR 0x09, CHR 0x0A, CHR 0x0B, CHR 0x0C, CHR 0x0D])"

text \<open>\<open>String.prototype.trim\<close>, on the ASCII white space.\<close>

definition trim :: "string \<Rightarrow> string" where
  "trim s = rev (dropWhile isSpace (rev (dropWhile isSpace s)))"

text \<open>
  \<open>toNumber(n, def)\<close> with a finite default, and \<open>toNumber(n, NaN)\<close>, whose result
  is NaN (\<open>None\<close>) or finite.
\<close>

fun toNumber :: "jsnum \<Rightarrow> rat \<Rightarrow> rat" where
  "toNumber NUndefined d = d"
| "toNumber NNull d = d"
| "toNumber NEmptyString d = d"
| "toNumber (NFinite v) d = v"
| "toNumber NNotFinite d = d"

fun toNumberNaN :: "jsnum \<Rightarrow> rat option" where
  "toNumberNaN (NFinite v) = Some v"
| "toNumberNaN _ = None"

text \<open>A stored numeric field as an argument of \<open>toNumber\<close>, and \<open>x ?? d\<close>.\<close>

fun stored :: "rat option \<Rightarrow> jsnum" where
  "stored None = NUndefined"
| "stored (Some v) = NFinite v"

fun nullish :: "'a option \<Rightarrow> 'a \<Rightarrow> 'a" where
  "nullish None d = d"
| "nullish (Some v) d = v"

definition isDigit :: "char \<Rightarrow> bool" where
  "isDigit c = (c \<in> set ''0123456789'')"

text \<open>The test \<open>/^\d{4}-\d{2}-\d{2}/\<close>.\<close>

definition isoDatePrefix :: "string \<Rightarrow> bool" where
  "isoDatePrefix s =
     (10 \<le> length s \<and> list_all isDigit (take 4 s) \<and> s ! 4 = CHR ''-'' \<and>
      list_all isDigit (take 2 (drop 5 s)) \<and> s ! 7 = CHR ''-'' \<and>
      list_all isDigit (take 2 (drop 8 s)))"

text \<open>
  \<open>normalizeDateString\<close> of a string field; \<open>parseDate\<close> is the runtime's
  \<open>new Date(d)\<close> followed by \<open>toISOString().slice(0, 10)\<close>, \<open>None\<close> for an invalid date.
\<close>

definition normalizeDateString :: "(string \<Rightarrow> string option) \<Rightarrow> string jsval \<Rightarrow> string option" where
  "normalizeDateString parseDate d =
     (if \<not> truthy d then None
      else if isoDatePrefix (orEmpty d) then Some (take 10 (orEmpty d))
      else parseDate (orEmpty d))"

subsection \<open>The documents\<close>

definition ALLOWED_TYPES :: "string list" where
  "ALLOWED_TYPES = [''freeplay'', ''deposit'', ''redeem'', ''playedgame'']"

definition ALLOWED_METHODS :: "string list" where
  "ALLOWED_METHODS = [''cashapp'', ''paypal'', ''chime'', ''venmo'']"

text \<open>A GameEntry document; \<open>entryId\<close> is its \<open>_id\<close>.\<close>

record entry =
  entryId :: nat
  username :: string
  createdBy :: string
  entryType :: string
  entryMethod :: "string option"
  playerName :: "string option"
  playerTag :: "string option"
  gameName :: string
  amountBase :: "rat option"
  amount :: "rat option"
  bonusRate :: "rat option"
  bonusAmount :: "rat option"
  amountFinal :: "rat option"
  entryNote :: "string option"
  entryDate :: "string option"
  totalPaid :: "rat option"
  totalCashout :: "rat option"
  remainingPay :: "rat option"
  isPending :: bool
  extraMoney :: "rat option"
  reduction :: "rat option"
  createdAt :: nat

text \<open>A Game document.\<close>

record game =
  gameTitle :: string
  coinsRecharged :: rat
  totalCoins :: rat

text \<open>
  A GameEntryHistory document: the action and the snapshot \<open>entry.toObject()\<close>; the
  columns the route copies beside it are the snapshot's fields.
\<close>

record historyRecord =
  histEntryId :: nat
  histAction :: string
  histSnapshot :: entry

record state =
  entries :: "entry list"
  games :: "game list"
  history :: "historyRecord list"
  nextId :: nat

text \<open>What a write route takes from outside the collections.\<close>

record env =
  histOk :: bool
  now :: nat
  parseDate :: "string \<Rightarrow> string option"

text \<open>The body of a POST or PUT request.\<close>

record body =
  b_username :: "string jsval"
  b_createdBy :: "string jsval"
  b_type :: "string jsval"
  b_method :: "string jsval"
  b_playerName :: "string jsval"
  b_playerTag :: "string jsval"
  b_gameName :: "string jsval"
  b_amountBase :: jsnum
  b_amount :: jsnum
  b_bonusRate :: jsnum
  b_bonusAmount :: jsnum
  b_amountFinal :: jsnum
  b_date :: "string jsval"
  b_note :: "string jsval"
  b_totalPaid :: jsnum
  b_totalCashout :: jsnum
  b_remainingPay :: jsnum
  b_extraMoney :: jsnum
  b_reduction :: jsnum
  b_isPending :: "bool jsval"

text \<open>A response: \<open>res.status(code).json(payload)\<close>, or a status with a message.\<close>

datatype 'a reply = Reply nat 'a | Failure nat string

text \<open>
  The validators of the GameEntry schema, which \<open>save()\<close> and \<open>create()\<close> run on the
  whole document: required paths, the two enums, and \<open>min: 0\<close>.
\<close>

definition nonNegative :: "rat option \<Rightarrow> bool" where
  "nonNegative x = (case x of None \<Rightarrow> True | Some v \<Rightarrow> 0 \<le> v)"

definition requiredNonNegative :: "rat option \<Rightarrow> bool" where
  "requiredNonNegative x = (case x of None \<Rightarrow> False | Some v \<Rightarrow> 0 \<le> v)"

definition schemaValid :: "entry \<Rightarrow> bool" where
  "schemaValid e =
     (username e \<noteq> [] \<and> createdBy e \<noteq> [] \<and>
      entryType e \<in> set ALLOWED_TYPES \<and>
      (case entryMethod e of
         None \<Rightarrow> \<not> (entryType e = ''deposit'' \<or> entryType e = ''redeem'')
       | Some m \<Rightarrow> m \<in> set ALLOWED_METHODS) \<and>
      gameName e \<noteq> [] \<and>
      requiredNonNegative (amountBase e) \<and> nonNegative (amount e) \<and>
      nonNegative (bonusRate e) \<and> nonNegative (bonusAmount e) \<and>
      requiredNonNegative (amountFinal e) \<and>
      nonNegative (totalPaid e) \<and> nonNegative (totalCashout e) \<and>
      nonNegative (remainingPay e) \<and> nonNegative (extraMoney e) \<and>
      nonNegative (reduction e))"

subsection \<open>Coin effect, game balance, history\<close>

text \<open>
  \<open>coinEffect(type, amountFinal)\<close>: \<open>Number(undefined)\<close> is NaN, so a missing amount
  has no effect.
\<close>

definition coinEffect :: "string \<Rightarrow> rat option \<Rightarrow> rat" where
  "coinEffect type amtFinal =
     (case amtFinal of
        None \<Rightarrow> 0
      | Some amt \<Rightarrow>
          if amt \<le> 0 then 0
          else if type = ''deposit'' \<or> type = ''freeplay'' \<or> type = ''playedgame'' then - amt
          else if type = ''redeem'' then amt
          else 0)"

text \<open>\<open>Game.findOne({ name })\<close>: the first game of that name.\<close>

definition findGame :: "string \<Rightarrow> game list \<Rightarrow> game option" where
  "findGame name gs = find (\<lambda>g. gameTitle g = name) gs"

text \<open>\<open>game.save()\<close> of the document that \<open>findOne\<close> returned.\<close>

fun saveGame :: "string \<Rightarrow> game \<Rightarrow> game list \<Rightarrow> game list" where
  "saveGame name g' [] = []"
| "saveGame name g' (g # gs) = (if gameTitle g = name then g' # gs else g # saveGame name g' gs)"

definition applyGameDelta :: "string \<Rightarrow> rat \<Rightarrow> game list \<Rightarrow> game list" where
  "applyGameDelta gName delta gs =
     (let name = trim gName in
      if name = [] then gs
      else case findGame name gs of
             None \<Rightarrow> gs
           | Some g \<Rightarrow> saveGame name (g\<lparr>totalCoins := totalCoins g + delta\<rparr>) gs)"

text \<open>\<open>recordHistory\<close>: a rejected write is logged and nothing else happens.\<close>

definition recordHistory :: "env \<Rightarrow> entry \<Rightarrow> string \<Rightarrow> historyRecord list \<Rightarrow> historyRecord list" where
  "recordHistory ev e action hs =
     (if histOk ev
      then hs @ [\<lparr>histEntryId = entryId e, histAction = action, histSnapshot = e\<rparr>]
      else hs)"

subsection \<open>The entry collection\<close>

text \<open>\<open>GameEntry.findById(id)\<close>, \<open>entry.save()\<close> and \<open>entry.deleteOne()\<close>.\<close>

definition findById :: "nat \<Rightarrow> entry list \<Rightarrow> entry option" where
  "findById i es = find (\<lambda>e. entryId e = i) es"

definition saveEntry :: "entry \<Rightarrow> entry list \<Rightarrow> entry list" where
  "saveEntry e es = map (\<lambda>x. if entryId x = entryId e then e else x) es"

definition deleteOne :: "nat \<Rightarrow> entry list \<Rightarrow> entry list" where
  "deleteOne i es = filter (\<lambda>e. entryId e \<noteq> i) es"

text \<open>
  \<open>GameEntry.findOne({username, playerTag, type: "deposit"}).sort({createdAt: -1})\<close>:
  the last of the matching documents in ascending order of \<open>createdAt\<close>.
\<close>

definition depositsOf :: "string \<Rightarrow> string \<Rightarrow> entry list \<Rightarrow> entry list" where
  "depositsOf u t es =
     filter (\<lambda>e. username e = u \<and> playerTag e = Some t \<and> entryType e = ''deposit'') es"

definition findLatestDeposit :: "string \<Rightarrow> string \<Rightarrow> entry list \<Rightarrow> entry option" where
  "findLatestDeposit u t es =
     (case rev (sort_key createdAt (depositsOf u t es)) of
        [] \<Rightarrow> None
      | e # _ \<Rightarrow> Some e)"

subsection \<open>POST /api/game-entries\<close>

definition cleanUsername :: "body \<Rightarrow> string" where
  "cleanUsername b = trim (orEmpty (b_username b))"

definition cleanCreatedBy :: "body \<Rightarrow> string" where
  "cleanCreatedBy b = trim (orEmpty (b_createdBy b))"

definition cleanGameName :: "body \<Rightarrow> string" where
  "cleanGameName b = trim (orEmpty (b_gameName b))"

definition cleanPlayerTag :: "body \<Rightarrow> string" where
  "cleanPlayerTag b = trim (orEmpty (b_playerTag b))"

definition numericReduction :: "body \<Rightarrow> rat" where
  "numericReduction b = toNumber (b_reduction b) 0"

text \<open>\<open>amount != null ? toNumber(amount, 0) : final\<close>.\<close>

definition incomingAmount :: "body \<Rightarrow> rat \<Rightarrow> rat" where
  "incomingAmount b final =
     (if b_amount b = NUndefined \<or> b_amount b = NNull then final else toNumber (b_amount b) 0)"

definition incomingTotalCashout :: "body \<Rightarrow> rat" where
  "incomingTotalCashout b = toNumber (b_totalCashout b) 0"

definition incomingExtraMoney :: "body \<Rightarrow> rat" where
  "incomingExtraMoney b = toNumber (b_extraMoney b) 0"

text \<open>
  The assignments of the merge branch to \<open>existing\<close>, in the route's order. The
  schema trims \<open>playerName\<close> and \<open>note\<close> when they are set.
\<close>

definition mergedEntry :: "env \<Rightarrow> body \<Rightarrow> rat \<Rightarrow> rat \<Rightarrow> entry \<Rightarrow> entry" where
  "mergedEntry ev b base final existing =
     (let oldAmtFinal = nullish (amountFinal existing) 0;
          e1 = existing\<lparr>amountBase := Some (toNumber (stored (amountBase existing)) 0 + base),
                        amount := Some (toNumber (stored (amount existing)) 0 + incomingAmount b final),
                        amountFinal := Some (oldAmtFinal + final)\<rparr>;
          e2 = (if totalCashout e1 = None \<or> totalCashout e1 = Some 0
                then e1\<lparr>totalCashout := Some (incomingTotalCashout b)\<rparr> else e1);
          e3 = e2\<lparr>extraMoney := Some (toNumber (stored (extraMoney e2)) 0 + incomingExtraMoney b)\<rparr>;
          e4 = (if b_playerName b \<noteq> Undefined
                then e3\<lparr>playerName := Some (trim (orEmpty (b_playerName b)))\<rparr> else e3);
          e5 = (if b_note b \<noteq> Undefined
                then e4\<lparr>entryNote := Some (trim (orEmpty (b_note b)))\<rparr> else e4);
          e6 = (if b_date b \<noteq> Undefined
                then e5\<lparr>entryDate := normalizeDateString (parseDate ev) (b_date b)\<rparr> else e5);
          totalDepositMerged = toNumber (stored (amountFinal e6)) 0;
          totalCashoutMerged = toNumber (stored (totalCashout e6)) 0;
          recalculatedReduction = totalCashoutMerged - totalDepositMerged;
          e7 = e6\<lparr>reduction := Some (if 0 < recalculatedReduction then recalculatedReduction else 0)\<rparr>
      in e7\<lparr>isPending := (0 < nullish (reduction e7) 0)\<rparr>)"

definition mergeDeposit :: "env \<Rightarrow> body \<Rightarrow> rat \<Rightarrow> rat \<Rightarrow> entry \<Rightarrow> state \<Rightarrow> entry reply \<times> state" where
  "mergeDeposit ev b base final existing st =
     (let oldType = entryType existing;
          oldAmtFinal = nullish (amountFinal existing) 0;
          merged = mergedEntry ev b base final existing
      in if \<not> schemaValid merged then (Failure 500 ''Failed to create game entry'', st)
         else
           let oldDelta = coinEffect oldType (Some oldAmtFinal);
               newDelta = coinEffect (entryType merged) (amountFinal merged);
               diffDelta = newDelta - oldDelta
           in (Reply 200 merged,
               st\<lparr>entries := saveEntry merged (entries st),
                  history := recordHistory ev merged ''update-merge'' (history st),
                  games := (if diffDelta \<noteq> 0
                            then applyGameDelta (gameName merged) diffDelta (games st)
                            else games st)\<rparr>))"

text \<open>The document of the default branch; the schema trims the strings it is given.\<close>

definition newEntry :: "env \<Rightarrow> body \<Rightarrow> rat \<Rightarrow> rat \<Rightarrow> nat \<Rightarrow> entry" where
  "newEntry ev b base final i =
     \<lparr>entryId = i,
      username = trim (cleanUsername b),
      createdBy = trim (cleanCreatedBy b),
      entryType = orEmpty (b_type b),
      entryMethod = (if truthy (b_method b) then Some (orEmpty (b_method b)) else None),
      playerName = Some (trim (orEmpty (b_playerName b))),
      playerTag = Some (trim (cleanPlayerTag b)),
      gameName = trim (cleanGameName b),
      amountBase = Some base,
      amount = Some (incomingAmount b final),
      bonusRate = Some (toNumber (b_bonusRate b) 0),
      bonusAmount = Some (toNumber (b_bonusAmount b) 0),
      amountFinal = Some final,
      entryNote = Some (trim (orEmpty (b_note b))),
      entryDate = normalizeDateString (parseDate ev) (b_date b),
      totalPaid = Some (toNumber (b_totalPaid b) 0),
      totalCashout = Some (incomingTotalCashout b),
      remainingPay = Some (toNumber (b_remainingPay b) 0),
      isPending = Boolean (b_isPending b),
      extraMoney = Some (incomingExtraMoney b),
      reduction = Some (numericReduction b),
      createdAt = now ev\<rparr>"

definition insertNew :: "env \<Rightarrow> body \<Rightarrow> rat \<Rightarrow> rat \<Rightarrow> state \<Rightarrow> entry reply \<times> state" where
  "insertNew ev b base final st =
     (let doc = newEntry ev b base final (nextId st)
      in if \<not> schemaValid doc then (Failure 500 ''Failed to create game entry'', st)
         else
           let delta = coinEffect (entryType doc) (amountFinal doc)
           in (Reply 201 doc,
               st\<lparr>entries := entries st @ [doc],
                  nextId := Suc (nextId st),
                  history := recordHistory ev doc ''create'' (history st),
                  games := (if delta \<noteq> 0
                            then applyGameDelta (gameName doc) delta (games st)
                            else games st)\<rparr>))"

definition createEntry :: "env \<Rightarrow> body \<Rightarrow> state \<Rightarrow> entry reply \<times> state" where
  "createEntry ev b st =
     (if \<not> truthy (b_username b) \<or> trim (orEmpty (b_username b)) = []
      then (Failure 400 ''username is required'', st)
      else if \<not> truthy (b_createdBy b) \<or> trim (orEmpty (b_createdBy b)) = []
      then (Failure 400 ''createdBy is required'', st)
      else if \<not> truthy (b_type b) \<or> orEmpty (b_type b) \<notin> set ALLOWED_TYPES
      then (Failure 400 ''Invalid type'', st)
      else if orEmpty (b_type b) \<in> set [''deposit'', ''redeem''] \<and>
              (\<not> truthy (b_method b) \<or> orEmpty (b_method b) \<notin> set ALLOWED_METHODS)
      then (Failure 400 ''Invalid or missing method'', st)
      else if \<not> truthy (b_gameName b) \<or> trim (orEmpty (b_gameName b)) = []
      then (Failure 400 ''gameName is required'', st)
      else
        case toNumberNaN (b_amountBase b) of
          None \<Rightarrow> (Failure 400 ''Invalid amountBase'', st)
        | Some base \<Rightarrow>
            if base < 0 then (Failure 400 ''Invalid amountBase'', st)
            else
              (case toNumberNaN (b_amountFinal b) of
                 None \<Rightarrow> (Failure 400 ''Invalid amountFinal'', st)
               | Some final \<Rightarrow>
                   if final < 0 then (Failure 400 ''Invalid amountFinal'', st)
                   else if orEmpty (b_type b) = ''deposit'' \<and> cleanPlayerTag b \<noteq> [] \<and>
                           0 < numericReduction b
                   then
                     (case findLatestDeposit (cleanUsername b) (cleanPlayerTag b) (entries st) of
                        Some existing \<Rightarrow> mergeDeposit ev b base final existing st
                      | None \<Rightarrow> insertNew ev b base final st)
                   else insertNew ev b base final st))"

subsection \<open>PUT /api/game-entries/:id\<close>

text \<open>
  \<open>entry[field] = payload[field]\<close> when the payload has the field. A required string
  set to \<open>null\<close> is modelled as the empty string: \<open>required\<close> rejects both. An
  \<open>isPending\<close> set to \<open>null\<close> is stored as false, which is how every reader of the
  flag takes it. The schema trims the strings of the paths declared with \<open>trim: true\<close>.
\<close>

fun setRequired :: "(string \<Rightarrow> string) \<Rightarrow> string jsval \<Rightarrow> string \<Rightarrow> string" where
  "setRequired f Undefined old = old"
| "setRequired f Null old = []"
| "setRequired f (Val s) old = f s"

fun setOptional :: "(string \<Rightarrow> string) \<Rightarrow> string jsval \<Rightarrow> string option \<Rightarrow> string option" where
  "setOptional f Undefined old = old"
| "setOptional f Null old = None"
| "setOptional f (Val s) old = Some (f s)"

text \<open>\<open>entry[field] = toNumber(payload[field], 0)\<close> when the payload has the field.\<close>

definition setNumber :: "jsnum \<Rightarrow> rat option \<Rightarrow> rat option" where
  "setNumber x old = (if x = NUndefined then old else Some (toNumber x 0))"

definition assignFields :: "env \<Rightarrow> body \<Rightarrow> entry \<Rightarrow> entry" where
  "assignFields ev payload e =
     e\<lparr>amountBase := (if b_amountBase payload \<noteq> NUndefined
                       then toNumberNaN (b_amountBase payload) else amountBase e),
       amountFinal := (if b_amountFinal payload \<noteq> NUndefined
                        then toNumberNaN (b_amountFinal payload) else amountFinal e),
       username := setRequired trim (b_username payload) (username e),
       createdBy := setRequired trim (b_createdBy payload) (createdBy e),
       entryType := setRequired id (b_type payload) (entryType e),
       entryMethod := setOptional id (b_method payload) (entryMethod e),
       playerName := setOptional trim (b_playerName payload) (playerName e),
       playerTag := setOptional trim (b_playerTag payload) (playerTag e),
       gameName := setRequired trim (b_gameName payload) (gameName e),
       amount := setNumber (b_amount payload) (amount e),
       bonusRate := setNumber (b_bonusRate payload) (bonusRate e),
       bonusAmount := setNumber (b_bonusAmount payload) (bonusAmount e),
       entryNote := setOptional trim (b_note payload) (entryNote e),
       totalPaid := setNumber (b_totalPaid payload) (totalPaid e),
       totalCashout := setNumber (b_totalCashout payload) (totalCashout e),
       remainingPay := setNumber (b_remainingPay payload) (remainingPay e),
       extraMoney := setNumber (b_extraMoney payload) (extraMoney e),
       reduction := setNumber (b_reduction payload) (reduction e),
       isPending := (if b_isPending payload \<noteq> Undefined
                      then Boolean (b_isPending payload) else isPending e),
       entryDate := (if b_date payload \<noteq> Undefined
                      then normalizeDateString (parseDate ev) (b_date payload)
                      else entryDate e)\<rparr>"

definition invalidAmount :: "jsnum \<Rightarrow> bool" where
  "invalidAmount x = (case toNumberNaN x of None \<Rightarrow> True | Some v \<Rightarrow> v < 0)"

definition updateEntry :: "env \<Rightarrow> nat \<Rightarrow> body \<Rightarrow> state \<Rightarrow> entry reply \<times> state" where
  "updateEntry ev i payload st =
     (case findById i (entries st) of
        None \<Rightarrow> (Failure 404 ''Game entry not found'', st)
      | Some e \<Rightarrow>
          let oldType = entryType e; oldAmtFinal = amountFinal e; oldGameName = gameName e
          in if truthy (b_type payload) \<and> orEmpty (b_type payload) \<notin> set ALLOWED_TYPES
             then (Failure 400 ''Invalid type'', st)
             else if truthy (b_method payload) \<and> orEmpty (b_method payload) \<notin> set ALLOWED_METHODS
             then (Failure 400 ''Invalid method'', st)
             else if b_amountBase payload \<noteq> NUndefined \<and> invalidAmount (b_amountBase payload)
             then (Failure 400 ''Invalid amountBase'', st)
             else if b_amountFinal payload \<noteq> NUndefined \<and> invalidAmount (b_amountFinal payload)
             then (Failure 400 ''Invalid amountFinal'', st)
             else
               let e' = assignFields ev payload e
               in if \<not> schemaValid e' then (Failure 500 ''Failed to update game entry'', st)
                  else
                    let oldDelta = coinEffect oldType oldAmtFinal;
                        games1 = (if oldDelta \<noteq> 0
                                  then applyGameDelta oldGameName (- oldDelta) (games st)
                                  else games st);
                        newDelta = coinEffect (entryType e') (amountFinal e');
                        games2 = (if newDelta \<noteq> 0
                                  then applyGameDelta (gameName e') newDelta games1
                                  else games1)
                    in (Reply 200 e',
                        st\<lparr>entries := saveEntry e' (entries st),
                           history := recordHistory ev e' ''update'' (history st),
                           games := games2\<rparr>))"

subsection \<open>DELETE /api/game-entries/:id\<close>

definition deleteEntry :: "env \<Rightarrow> nat \<Rightarrow> state \<Rightarrow> bool reply \<times> state" where
  "deleteEntry ev i st =
     (case findById i (entries st) of
        None \<Rightarrow> (Failure 404 ''Game entry not found'', st)
      | Some e \<Rightarrow>
          let delta = coinEffect (entryType e) (amountFinal e)
          in (Reply 200 True,
              st\<lparr>games := (if delta \<noteq> 0
                            then applyGameDelta (gameName e) (- delta) (games st)
                            else games st),
                 history := recordHistory ev e ''delete'' (history st),
                 entries := deleteOne i (entries st)\<rparr>))"

subsection \<open>PATCH /api/game-entries/:id/clear-pending\<close>

definition clearedEntry :: "entry \<Rightarrow> entry" where
  "clearedEntry e =
     (if entryType e = ''redeem'' then e\<lparr>remainingPay := Some 0, isPending := False\<rparr>
      else if entryType e = ''deposit'' then e\<lparr>reduction := Some 0, isPending := False\<rparr>
      else e\<lparr>remainingPay := Some 0, reduction := Some 0, isPending := False\<rparr>)"

definition clearPending :: "env \<Rightarrow> nat \<Rightarrow> state \<Rightarrow> entry reply \<times> state" where
  "clearPending ev i st =
     (case findById i (entries st) of
        None \<Rightarrow> (Failure 404 ''Game entry not found'', st)
      | Some e \<Rightarrow>
          let e' = clearedEntry e
          in if \<not> schemaValid e'
             then (Failure 500 ''Failed to clear pending for this entry'', st)
             else (Reply 200 e',
                   st\<lparr>entries := saveEntry e' (entries st),
                      history := recordHistory ev e' ''clear-pending'' (history st)\<rparr>))"

subsection \<open>GET /api/game-entries/pending\<close>

text \<open>One entry of the \<open>tagMap\<close>: the latest redeem and the latest deposit of a key.\<close>

record tagGroup =
  lastRedeem :: "entry option"
  lastDeposit :: "entry option"

text \<open>A row of the response. \<open>p_date\<close> is the entry's date or, failing that, its creation stamp.\<close>

record pendingRow =
  p_id :: nat
  p_type :: string
  p_username :: string
  p_playerName :: string
  p_playerTag :: string
  p_gameName :: string
  p_method :: string
  p_totalPaid :: rat
  p_totalCashout :: rat
  p_remainingPay :: rat
  p_reduction :: rat
  p_date :: "string + nat"
  p_createdAt :: nat

text \<open>\<open>x || ""\<close> of a stored string.\<close>

fun orBlank :: "string option \<Rightarrow> string" where
  "orBlank None = []"
| "orBlank (Some s) = s"

text \<open>The key \<open>`${e.username}::${e.playerTag || ""}`\<close>.\<close>

definition tagKey :: "entry \<Rightarrow> string" where
  "tagKey e = username e @ ''::'' @ orBlank (playerTag e)"

text \<open>
  One round of the grouping loop. \<open>tagMap\<close> is a JavaScript \<open>Map\<close>: a new key goes to
  the end, a known key keeps its place.
\<close>

definition groupStep :: "(string \<times> tagGroup) list \<Rightarrow> entry \<Rightarrow> (string \<times> tagGroup) list" where
  "groupStep tagMap e =
     (let key = tagKey e;
          grp = (case map_of tagMap key of
                   None \<Rightarrow> \<lparr>lastRedeem = None, lastDeposit = None\<rparr>
                 | Some g \<Rightarrow> g)
      in if entryType e = ''redeem'' then AList.update key (grp\<lparr>lastRedeem := Some e\<rparr>) tagMap
         else if entryType e = ''deposit'' then AList.update key (grp\<lparr>lastDeposit := Some e\<rparr>) tagMap
         else AList.update key grp tagMap)"

definition groupByTag :: "entry list \<Rightarrow> (string \<times> tagGroup) list" where
  "groupByTag docs = foldl groupStep [] docs"

definition buildRow :: "entry \<Rightarrow> rat \<Rightarrow> rat \<Rightarrow> pendingRow" where
  "buildRow baseDoc totalPending pendingReduction =
     \<lparr>p_id = entryId baseDoc,
      p_type = entryType baseDoc,
      p_username = username baseDoc,
      p_playerName = orBlank (playerName baseDoc),
      p_playerTag = orBlank (playerTag baseDoc),
      p_gameName = gameName baseDoc,
      p_method = orBlank (entryMethod baseDoc),
      p_totalPaid = toNumber (NFinite (nullish (totalPaid baseDoc) 0)) 0,
      p_totalCashout =
        toNumber (NFinite (nullish (totalCashout baseDoc) (nullish (amountFinal baseDoc) 0))) 0,
      p_remainingPay = totalPending,
      p_reduction = pendingReduction,
      p_date = (if orBlank (entryDate baseDoc) \<noteq> [] then Inl (orBlank (entryDate baseDoc))
                else Inr (createdAt baseDoc)),
      p_createdAt = createdAt baseDoc\<rparr>"

text \<open>The pending amount of a redeem: \<open>remainingPay ?? totalCashout - totalPaid\<close>.\<close>

definition redeemPending :: "entry \<Rightarrow> rat" where
  "redeemPending r =
     (let paid = toNumber (NFinite (nullish (totalPaid r) 0)) 0;
          cashout = toNumber (NFinite (nullish (totalCashout r) (nullish (amountFinal r) 0))) 0
      in toNumber (NFinite (nullish (remainingPay r) (cashout - paid))) 0)"

text \<open>The body of the second loop: the row of one group, if it has one.\<close>

definition resolveGroup :: "tagGroup \<Rightarrow> pendingRow option" where
  "resolveGroup grp =
     (case lastDeposit grp of
        Some d \<Rightarrow>
          let pendingReduction = toNumber (stored (reduction d)) 0;
              totalPending = pendingReduction
          in if totalPending \<le> 0 then None else Some (buildRow d totalPending pendingReduction)
      | None \<Rightarrow>
          (case lastRedeem grp of
             Some r \<Rightarrow>
               if isPending r
               then let pendingRedeem = redeemPending r;
                        totalPending = pendingRedeem
                    in if totalPending \<le> 0 then None else Some (buildRow r totalPending 0)
               else None
           | None \<Rightarrow> None))"

definition pendingRows :: "entry list \<Rightarrow> pendingRow list" where
  "pendingRows docs = List.map_filter (\<lambda>(key, grp). resolveGroup grp) (groupByTag docs)"

text \<open>
  The query of the route: redeems and deposits, of one user when \<open>username\<close> is given,
  oldest first.
\<close>

definition pendingDocs :: "string jsval \<Rightarrow> entry list \<Rightarrow> entry list" where
  "pendingDocs uname es =
     sort_key createdAt
       (filter (\<lambda>e. (entryType e = ''redeem'' \<or> entryType e = ''deposit'') \<and>
                     (if truthy uname \<and> trim (orEmpty uname) \<noteq> []
                      then username e = trim (orEmpty uname) else True)) es)"

definition listPending :: "string jsval \<Rightarrow> entry list \<Rightarrow> pendingRow list" where
  "listPending uname es = pendingRows (pendingDocs uname es)"

subsection \<open>GET /api/game-entries/pending-by-tag\<close>





subsection \<open>GET /api/game-entries/summary\<close>









subsection \<open>The ledger as a sequence of requests\<close>

datatype request =
  Create env body | Update env nat body | Delete env nat | ClearPending env nat

fun perform :: "state \<Rightarrow> request \<Rightarrow> state" where
  "perform st (Create ev b) = snd (createEntry ev b st)"
| "perform st (Update ev i b) = snd (updateEntry ev i b st)"
| "perform st (Delete ev i) = snd (deleteEntry ev i st)"
| "perform st (ClearPending ev i) = snd (clearPending ev i st)"

definition performAll :: "state \<Rightarrow> request list \<Rightarrow> state" where
  "performAll st rs = foldl perform st rs"

text \<open>The coin effect of one entry, and the sum over the entries of one game.\<close>

definition effectOf :: "entry \<Rightarrow> rat" where
  "effectOf e = coinEffect (entryType e) (amountFinal e)"

definition coinSum :: "string \<Rightarrow> entry list \<Rightarrow> rat" where
  "coinSum name es = sum_list (map effectOf (filter (\<lambda>e. gameName e = name) es))"

text \<open>The balance that \<open>Game.findOne({ name })\<close> shows for a name.\<close>

definition balanceOf :: "string \<Rightarrow> game list \<Rightarrow> rat option" where
  "balanceOf name gs = map_option totalCoins (findGame name gs)"

text \<open>Every game's balance is the sum of the coin effects of its entries.\<close>

definition balancedWith :: "entry list \<Rightarrow> game list \<Rightarrow> bool" where
  "balancedWith es gs =
     (\<forall>g\<in>set gs. balanceOf (gameTitle g) gs = Some (coinSum (gameTitle g) es))"

definition balanced :: "state \<Rightarrow> bool" where
  "balanced st = balancedWith (entries st) (games st)"

text \<open>
  What the collection guarantees of stored entries: \<open>_id\<close> is unique and was issued
  before \<open>nextId\<close>, and \<open>gameName\<close> is as the schema stores it (required, trimmed).
\<close>

definition trimmedName :: "entry \<Rightarrow> bool" where
  "trimmedName e = (gameName e \<noteq> [] \<and> trim (gameName e) = gameName e)"

definition storeInv :: "state \<Rightarrow> bool" where
  "storeInv st =
     (distinct (map entryId (entries st)) \<and>
      (\<forall>e\<in>set (entries st). entryId e < nextId st \<and> trimmedName e))"

subsection \<open>Example requests and states\<close>

definition emptyBody :: body where
  "emptyBody =
     \<lparr>b_username = Undefined, b_createdBy = Undefined, b_type = Undefined, b_method = Undefined,
      b_playerName = Undefined, b_playerTag = Undefined, b_gameName = Undefined,
      b_amountBase = NUndefined, b_amount = NUndefined, b_bonusRate = NUndefined,
      b_bonusAmount = NUndefined, b_amountFinal = NUndefined, b_date = Undefined,
      b_note = Undefined, b_totalPaid = NUndefined, b_totalCashout = NUndefined,
      b_remainingPay = NUndefined, b_extraMoney = NUndefined, b_reduction = NUndefined,
      b_isPending = Undefined\<rparr>"

definition exampleEnv :: env where
  "exampleEnv = \<lparr>histOk = True, now = 0, parseDate = (\<lambda>s. None)\<rparr>"

text \<open>A deposit of 100 and a redeem of 40 on game X, by user ann.\<close>

definition exampleDeposit :: body where
  "exampleDeposit =
     emptyBody\<lparr>b_username := Val ''ann'', b_createdBy := Val ''ann'', b_type := Val ''deposit'',
       b_method := Val ''cashapp'', b_gameName := Val ''X'',
       b_amountBase := NFinite 100, b_amountFinal := NFinite 100\<rparr>"

definition exampleRedeem :: body where
  "exampleRedeem =
     emptyBody\<lparr>b_username := Val ''ann'', b_createdBy := Val ''ann'', b_type := Val ''redeem'',
       b_method := Val ''cashapp'', b_gameName := Val ''X'',
       b_amountBase := NFinite 40, b_amountFinal := NFinite 40\<rparr>"

text \<open>One registered game, X, and no entries.\<close>

definition exampleState :: state where
  "exampleState =
     \<lparr>entries = [], games = [\<lparr>gameTitle = ''X'', coinsRecharged = 0, totalCoins = 0\<rparr>],
      history = [], nextId = 0\<rparr>"


text \<open>A reply and the state without its history: what the caller and the ledger see.\<close>

definition outcome :: "'a reply \<times> state \<Rightarrow> 'a reply \<times> entry list \<times> game list \<times> nat" where
  "outcome p = (fst p, entries (snd p), games (snd p), nextId (snd p))"

text \<open>
  Two registered games and two deposits of user ann for the player tag t1: the first
  of 100 on game X with a cashout of 300, the second of 50 submitted for game Y.
\<close>

definition twoGames :: state where
  "twoGames =
     \<lparr>entries = [],
      games = [\<lparr>gameTitle = ''X'', coinsRecharged = 0, totalCoins = 0\<rparr>,
               \<lparr>gameTitle = ''Y'', coinsRecharged = 0, totalCoins = 0\<rparr>],
      history = [], nextId = 0\<rparr>"

definition firstDeposit :: body where
  "firstDeposit =
     exampleDeposit\<lparr>b_playerTag := Val ''t1'', b_totalCashout := NFinite 300,
       b_reduction := NFinite 200\<rparr>"

definition secondDeposit :: body where
  "secondDeposit =
     exampleDeposit\<lparr>b_playerTag := Val ''t1'', b_gameName := Val ''Y'',
       b_amountBase := NFinite 50, b_amountFinal := NFinite 50,
       b_totalCashout := NFinite 150, b_reduction := NFinite 150\<rparr>"

definition firstRow :: entry where
  "firstRow =
     \<lparr>entryId = 0, username = ''ann'', createdBy = ''ann'', entryType = ''deposit'',
      entryMethod = Some ''cashapp'', playerName = Some [], playerTag = Some ''t1'',
      gameName = ''X'', amountBase = Some 100, amount = Some 100, bonusRate = Some 0,
      bonusAmount = Some 0, amountFinal = Some 100, entryNote = Some [], entryDate = None,
      totalPaid = Some 0, totalCashout = Some 300, remainingPay = Some 0, isPending = False,
      extraMoney = Some 0, reduction = Some 200, createdAt = 0\<rparr>"

definition afterFirstDeposit :: state where
  "afterFirstDeposit = snd (createEntry exampleEnv firstDeposit twoGames)"

definition mergedRow :: entry where
  "mergedRow =
     firstRow\<lparr>amountBase := Some 150, amount := Some 150, amountFinal := Some 150,
       reduction := Some 150, isPending := True\<rparr>"

subsection \<open>The pending resolver, group by group\<close>

text \<open>The last element of a list that satisfies a predicate.\<close>

definition lastWhere :: "('a \<Rightarrow> bool) \<Rightarrow> 'a list \<Rightarrow> 'a option" where
  "lastWhere P xs = find P (rev xs)"

text \<open>The group of a key: the latest redeem and the latest deposit with that key.\<close>

definition groupOf :: "string \<Rightarrow> entry list \<Rightarrow> tagGroup" where
  "groupOf k docs =
     \<lparr>lastRedeem = lastWhere (\<lambda>e. tagKey e = k \<and> entryType e = ''redeem'') docs,
      lastDeposit = lastWhere (\<lambda>e. tagKey e = k \<and> entryType e = ''deposit'') docs\<rparr>"






subsection \<open>Example entries for the read routes\<close>

text \<open>
  A redeem of ann for tag t1 that is pending with 50 to pay, and a later deposit of ann
  for t1 with no reduction: the store after the two POST requests.
\<close>

definition pendingRedeemBody :: body where
  "pendingRedeemBody =
     exampleRedeem\<lparr>b_playerTag := Val ''t1'', b_amountBase := NFinite 50,
       b_amountFinal := NFinite 50, b_totalCashout := NFinite 50,
       b_remainingPay := NFinite 50, b_isPending := Val True\<rparr>"

definition settledDepositBody :: body where
  "settledDepositBody = exampleDeposit\<lparr>b_playerTag := Val ''t1''\<rparr>"

definition staleEntries :: "entry list" where
  "staleEntries =
     entries (performAll exampleState
       [Create (exampleEnv\<lparr>now := 1\<rparr>) pendingRedeemBody,
        Create (exampleEnv\<lparr>now := 2\<rparr>) settledDepositBody])"

text \<open>
  The same two requests from two users: a with the tag b::c, and a::b with the tag c.
\<close>

definition collidingEntries :: "entry list" where
  "collidingEntries =
     entries (performAll exampleState
       [Create (exampleEnv\<lparr>now := 1\<rparr>)
          (pendingRedeemBody\<lparr>b_username := Val ''a'', b_playerTag := Val ''b::c''\<rparr>),
        Create (exampleEnv\<lparr>now := 2\<rparr>)
          (settledDepositBody\<lparr>b_username := Val ''a::b'', b_playerTag := Val ''c''\<rparr>)])"






section \<open>Properties\<close>

subsection \<open>The game balance is the sum of the coin effects\<close>



lemma findGame_saveGame:
  "gameTitle g' = m \<Longrightarrow> findGame n (saveGame m g' gs) =
     (if n = m then (if findGame m gs = None then None else Some g') else findGame n gs)"
  by (induction gs) (auto simp: findGame_def)


lemma findGame_title: "findGame n gs = Some g \<Longrightarrow> gameTitle g = n"
  by (auto simp: findGame_def find_Some_iff)

lemma balanceOf_applyGameDelta:
  "balanceOf n (applyGameDelta g d gs) =
     (if trim g = n \<and> n \<noteq> [] then map_option (\<lambda>x. x + d) (balanceOf n gs) else balanceOf n gs)"
  by (auto simp: balanceOf_def applyGameDelta_def Let_def findGame_saveGame
      dest: findGame_title split: option.splits)



lemma findById_in: "findById i es = Some e \<Longrightarrow> e \<in> set es \<and> entryId e = i"
  by (auto simp: findById_def find_Some_iff)

lemma findById_distinct:
  "distinct (map entryId es) \<Longrightarrow> e \<in> set es \<Longrightarrow> findById (entryId e) es = Some e"
  by (induction es) (auto simp: findById_def)








lemma coinEffect_nullish: "coinEffect t (Some (nullish a 0)) = coinEffect t a"
  by (cases a) (simp_all add: coinEffect_def)


lemma mergedEntry_same:
  "entryId (mergedEntry ev b base final e) = entryId e"
  "gameName (mergedEntry ev b base final e) = gameName e"
  "entryType (mergedEntry ev b base final e) = entryType e"
  by (simp_all add: mergedEntry_def Let_def)



lemma trim_Nil: "trim [] = []"
  by (simp add: trim_def)





lemma clearedEntry_same:
  "entryId (clearedEntry e) = entryId e"
  "gameName (clearedEntry e) = gameName e"
  "entryType (clearedEntry e) = entryType e"
  "amountFinal (clearedEntry e) = amountFinal e"
  by (simp_all add: clearedEntry_def)











lemma findGame_Some_in: "findGame n gs = Some g \<Longrightarrow> g \<in> set gs"
  by (auto simp: findGame_def find_Some_iff)

lemma fresh_state_balanced:
  assumes "entries st = []" and "\<forall>g\<in>set (games st). totalCoins g = 0"
  shows "storeInv st \<and> balanced st"
proof -
  have "balanceOf (gameTitle g) (games st) = Some 0" if "g \<in> set (games st)" for g
  proof -
    from that have "\<exists>x\<in>set (games st). gameTitle x = gameTitle g" by blast
    then have "findGame (gameTitle g) (games st) \<noteq> None"
      by (auto simp: findGame_def find_None_iff)
    then obtain g' where "findGame (gameTitle g) (games st) = Some g'" by blast
    moreover from this have "g' \<in> set (games st)" by (rule findGame_Some_in)
    ultimately show ?thesis using assms(2) by (simp add: balanceOf_def)
  qed
  then show ?thesis
    using assms(1) by (simp add: storeInv_def balanced_def balancedWith_def coinSum_def)
qed



text \<open>The spec's scenario: a deposit of 100 and then a redeem of 40 leave X at -60.\<close>

lemma deposit_then_redeem_example:
  "map totalCoins (games (performAll exampleState
     [Create exampleEnv exampleDeposit, Create exampleEnv exampleRedeem])) = [- 60]"
  by code_simp

subsection \<open>Requests that the POST route accepts\<close>

lemma insertNew_reply:
  "fst (insertNew ev b base final st) = Reply c doc \<Longrightarrow>
   c = 201 \<and> doc = newEntry ev b base final (nextId st) \<and>
   entries (snd (insertNew ev b base final st)) = entries st @ [doc]"
  by (auto simp: insertNew_def Let_def split: if_splits)

lemma mergeDeposit_reply:
  "fst (mergeDeposit ev b base final e st) = Reply c m \<Longrightarrow>
   c = 200 \<and> m = mergedEntry ev b base final e \<and> schemaValid m"
  by (auto simp: mergeDeposit_def Let_def split: if_splits)

lemma mergeDeposit_state:
  assumes "fst (mergeDeposit ev b base final e st) = Reply c m"
  shows "entries (snd (mergeDeposit ev b base final e st)) = saveEntry m (entries st)"
    and "history (snd (mergeDeposit ev b base final e st)) =
          recordHistory ev m ''update-merge'' (history st)"
    and "games (snd (mergeDeposit ev b base final e st)) =
          (if effectOf m - effectOf e \<noteq> 0
           then applyGameDelta (gameName e) (effectOf m - effectOf e) (games st) else games st)"
    and "nextId (snd (mergeDeposit ev b base final e st)) = nextId st"
proof -
  from mergeDeposit_reply [OF assms] have m: "m = mergedEntry ev b base final e"
    and v: "schemaValid (mergedEntry ev b base final e)" by blast+
  have gn: "gameName m = gameName e" "entryType m = entryType e"
    by (simp_all add: m mergedEntry_same)
  have eq: "mergeDeposit ev b base final e st =
     (Reply 200 m,
      st\<lparr>entries := saveEntry m (entries st),
         history := recordHistory ev m ''update-merge'' (history st),
         games := (if effectOf m - effectOf e \<noteq> 0
                   then applyGameDelta (gameName e) (effectOf m - effectOf e) (games st)
                   else games st)\<rparr>)"
    unfolding mergeDeposit_def Let_def using v
    by (simp add: m [symmetric] effectOf_def coinEffect_nullish gn)
  show "entries (snd (mergeDeposit ev b base final e st)) = saveEntry m (entries st)"
    and "history (snd (mergeDeposit ev b base final e st)) =
          recordHistory ev m ''update-merge'' (history st)"
    and "games (snd (mergeDeposit ev b base final e st)) =
          (if effectOf m - effectOf e \<noteq> 0
           then applyGameDelta (gameName e) (effectOf m - effectOf e) (games st) else games st)"
    and "nextId (snd (mergeDeposit ev b base final e st)) = nextId st"
    unfolding eq by simp_all
qed

text \<open>The route past its checks, and the checks that a request passed when it got a reply.\<close>

lemma createEntry_passed:
  assumes "truthy (b_username b)" "trim (orEmpty (b_username b)) \<noteq> []"
    and "truthy (b_createdBy b)" "trim (orEmpty (b_createdBy b)) \<noteq> []"
    and "truthy (b_type b)" "orEmpty (b_type b) \<in> set ALLOWED_TYPES"
    and "orEmpty (b_type b) \<in> set [''deposit'', ''redeem''] \<longrightarrow>
         truthy (b_method b) \<and> orEmpty (b_method b) \<in> set ALLOWED_METHODS"
    and "truthy (b_gameName b)" "trim (orEmpty (b_gameName b)) \<noteq> []"
    and "b_amountBase b = NFinite base" "0 \<le> base"
    and "b_amountFinal b = NFinite final" "0 \<le> final"
  shows "createEntry ev b st =
           (if orEmpty (b_type b) = ''deposit'' \<and> cleanPlayerTag b \<noteq> [] \<and> 0 < numericReduction b
            then (case findLatestDeposit (cleanUsername b) (cleanPlayerTag b) (entries st) of
                    Some existing \<Rightarrow> mergeDeposit ev b base final existing st
                  | None \<Rightarrow> insertNew ev b base final st)
            else insertNew ev b base final st)"
  using assms by (auto simp: createEntry_def cong: option.case_cong if_cong)

lemma createEntry_checks:
  assumes "fst (createEntry ev b st) = Reply c doc"
  shows "truthy (b_username b) \<and> trim (orEmpty (b_username b)) \<noteq> [] \<and>
         truthy (b_createdBy b) \<and> trim (orEmpty (b_createdBy b)) \<noteq> [] \<and>
         truthy (b_type b) \<and> orEmpty (b_type b) \<in> set ALLOWED_TYPES \<and>
         (orEmpty (b_type b) \<in> set [''deposit'', ''redeem''] \<longrightarrow>
            truthy (b_method b) \<and> orEmpty (b_method b) \<in> set ALLOWED_METHODS) \<and>
         truthy (b_gameName b) \<and> trim (orEmpty (b_gameName b)) \<noteq> [] \<and>
         b_amountBase b = NFinite (toNumber (b_amountBase b) 0) \<and> 0 \<le> toNumber (b_amountBase b) 0 \<and>
         b_amountFinal b = NFinite (toNumber (b_amountFinal b) 0) \<and> 0 \<le> toNumber (b_amountFinal b) 0"
proof -
  have g1: "\<not> (\<not> truthy (b_username b) \<or> trim (orEmpty (b_username b)) = [])"
  proof
    assume "\<not> truthy (b_username b) \<or> trim (orEmpty (b_username b)) = []"
    then have "\<exists>msg. fst (createEntry ev b st) = Failure 400 msg" by (simp add: createEntry_def)
    with assms show False by auto
  qed
  have g2: "\<not> (\<not> truthy (b_createdBy b) \<or> trim (orEmpty (b_createdBy b)) = [])"
  proof
    assume "\<not> truthy (b_createdBy b) \<or> trim (orEmpty (b_createdBy b)) = []"
    then have "\<exists>msg. fst (createEntry ev b st) = Failure 400 msg"
      using g1 by (simp add: createEntry_def)
    with assms show False by auto
  qed
  have g3: "\<not> (\<not> truthy (b_type b) \<or> orEmpty (b_type b) \<notin> set ALLOWED_TYPES)"
  proof
    assume "\<not> truthy (b_type b) \<or> orEmpty (b_type b) \<notin> set ALLOWED_TYPES"
    then have "\<exists>msg. fst (createEntry ev b st) = Failure 400 msg"
      using g1 g2 by (simp add: createEntry_def)
    with assms show False by auto
  qed
  have g4: "\<not> (orEmpty (b_type b) \<in> set [''deposit'', ''redeem''] \<and>
              (\<not> truthy (b_method b) \<or> orEmpty (b_method b) \<notin> set ALLOWED_METHODS))"
  proof
    assume "orEmpty (b_type b) \<in> set [''deposit'', ''redeem''] \<and>
              (\<not> truthy (b_method b) \<or> orEmpty (b_method b) \<notin> set ALLOWED_METHODS)"
    then have "\<exists>msg. fst (createEntry ev b st) = Failure 400 msg"
      using g1 g2 g3 by (simp add: createEntry_def)
    with assms show False by auto
  qed
  have g5: "\<not> (\<not> truthy (b_gameName b) \<or> trim (orEmpty (b_gameName b)) = [])"
  proof
    assume "\<not> truthy (b_gameName b) \<or> trim (orEmpty (b_gameName b)) = []"
    then have "\<exists>msg. fst (createEntry ev b st) = Failure 400 msg"
      using g1 g2 g3 g4 by (simp add: createEntry_def)
    with assms show False by auto
  qed
  have rest: "createEntry ev b st =
      (case toNumberNaN (b_amountBase b) of
          None \<Rightarrow> (Failure 400 ''Invalid amountBase'', st)
        | Some base \<Rightarrow>
            if base < 0 then (Failure 400 ''Invalid amountBase'', st)
            else
              (case toNumberNaN (b_amountFinal b) of
                 None \<Rightarrow> (Failure 400 ''Invalid amountFinal'', st)
               | Some final \<Rightarrow>
                   if final < 0 then (Failure 400 ''Invalid amountFinal'', st)
                   else if orEmpty (b_type b) = ''deposit'' \<and> cleanPlayerTag b \<noteq> [] \<and>
                           0 < numericReduction b
                   then
                     (case findLatestDeposit (cleanUsername b) (cleanPlayerTag b) (entries st) of
                        Some existing \<Rightarrow> mergeDeposit ev b base final existing st
                      | None \<Rightarrow> insertNew ev b base final st)
                   else insertNew ev b base final st))"
    using g1 g2 g3 g4 g5 by (auto simp: createEntry_def cong: option.case_cong if_cong)
  obtain base where base: "toNumberNaN (b_amountBase b) = Some base"
    using assms unfolding rest by (cases "toNumberNaN (b_amountBase b)") simp_all
  have nb: "\<not> base < 0" using assms unfolding rest base by (auto split: if_splits)
  obtain final where final: "toNumberNaN (b_amountFinal b) = Some final"
    using assms nb unfolding rest base by (cases "toNumberNaN (b_amountFinal b)") simp_all
  have nf: "\<not> final < 0" using assms nb unfolding rest base final by (auto split: if_splits)
  have tb: "b_amountBase b = NFinite base" using base by (cases "b_amountBase b") simp_all
  have tf: "b_amountFinal b = NFinite final" using final by (cases "b_amountFinal b") simp_all
  show ?thesis using g1 g2 g3 g4 g5 nb nf by (auto simp: tb tf)
qed

lemma createEntry_accepted:
  assumes "fst (createEntry ev b st) = Reply c doc"
  shows "createEntry ev b st =
           (if orEmpty (b_type b) = ''deposit'' \<and> cleanPlayerTag b \<noteq> [] \<and> 0 < numericReduction b
            then (case findLatestDeposit (cleanUsername b) (cleanPlayerTag b) (entries st) of
                    Some existing \<Rightarrow>
                      mergeDeposit ev b (toNumber (b_amountBase b) 0) (toNumber (b_amountFinal b) 0) existing st
                  | None \<Rightarrow> insertNew ev b (toNumber (b_amountBase b) 0) (toNumber (b_amountFinal b) 0) st)
            else insertNew ev b (toNumber (b_amountBase b) 0) (toNumber (b_amountFinal b) 0) st)"
  using createEntry_checks [OF assms] by (intro createEntry_passed) simp_all

text \<open>Status 200 is the merge branch's, 201 the default branch's.\<close>

lemma createEntry_merged:
  assumes "fst (createEntry ev b st) = Reply 200 m"
  shows "\<exists>existing.
           findLatestDeposit (cleanUsername b) (cleanPlayerTag b) (entries st) = Some existing \<and>
           orEmpty (b_type b) = ''deposit'' \<and> cleanPlayerTag b \<noteq> [] \<and> 0 < numericReduction b \<and>
           createEntry ev b st =
             mergeDeposit ev b (toNumber (b_amountBase b) 0) (toNumber (b_amountFinal b) 0) existing st"
proof -
  let ?ins = "insertNew ev b (toNumber (b_amountBase b) 0) (toNumber (b_amountFinal b) 0) st"
  have no: "fst ?ins \<noteq> Reply 200 m" using insertNew_reply [of ev b _ _ st 200 m] by auto
  note acc = createEntry_accepted [OF assms]
  show ?thesis
  proof (cases "findLatestDeposit (cleanUsername b) (cleanPlayerTag b) (entries st)")
    case None
    with acc have "createEntry ev b st = ?ins" by (simp split: if_splits)
    with assms no show ?thesis by simp
  next
    case (Some existing)
    show ?thesis
    proof (cases "orEmpty (b_type b) = ''deposit'' \<and> cleanPlayerTag b \<noteq> [] \<and> 0 < numericReduction b")
      case True
      with acc Some show ?thesis by simp
    next
      case False
      with acc have "createEntry ev b st = ?ins" by simp
      with assms no show ?thesis by simp
    qed
  qed
qed

lemma createEntry_created:
  assumes "fst (createEntry ev b st) = Reply 201 doc"
  shows "createEntry ev b st =
           insertNew ev b (toNumber (b_amountBase b) 0) (toNumber (b_amountFinal b) 0) st"
proof -
  note acc = createEntry_accepted [OF assms]
  show ?thesis
  proof (cases "findLatestDeposit (cleanUsername b) (cleanPlayerTag b) (entries st)")
    case None
    with acc show ?thesis by (simp split: if_splits)
  next
    case (Some existing)
    show ?thesis
    proof (cases "orEmpty (b_type b) = ''deposit'' \<and> cleanPlayerTag b \<noteq> [] \<and> 0 < numericReduction b")
      case True
      with acc Some have "createEntry ev b st =
        mergeDeposit ev b (toNumber (b_amountBase b) 0) (toNumber (b_amountFinal b) 0) existing st"
        by simp
      with assms have "fst (mergeDeposit ev b (toNumber (b_amountBase b) 0)
          (toNumber (b_amountFinal b) 0) existing st) = Reply 201 doc" by simp
      from mergeDeposit_reply [OF this] show ?thesis by simp
    next
      case False
      with acc show ?thesis by simp
    qed
  qed
qed

subsection \<open>The merge target\<close>

lemma findLatestDeposit_latest:
  assumes "findLatestDeposit u t es = Some e"
  shows "e \<in> set (depositsOf u t es) \<and> (\<forall>x\<in>set (depositsOf u t es). createdAt x \<le> createdAt e)"
proof -
  let ?s = "sort_key createdAt (depositsOf u t es)"
  from assms obtain ys where r: "rev ?s = e # ys"
    by (auto simp: findLatestDeposit_def split: list.splits)
  then have s: "?s = rev ys @ [e]" by (metis rev.simps(2) rev_rev_ident)
  have "sorted (map createdAt ?s)" by simp
  then have "\<forall>x\<in>set (rev ys). createdAt x \<le> createdAt e"
    unfolding s by (simp add: sorted_append)
  moreover have "set ?s = set (depositsOf u t es)" by simp
  ultimately show ?thesis unfolding s by auto
qed






subsection \<open>The merge keeps the stored game\<close>

lemma findById_saveEntry:
  "findById i es = Some e \<Longrightarrow> entryId e' = i \<Longrightarrow> findById i (saveEntry e' es) = Some e'"
  by (induction es) (auto simp: findById_def saveEntry_def)

lemma trim_nonempty: "trim g \<noteq> [] \<Longrightarrow> g \<noteq> []"
  by (auto simp: trim_Nil)

lemma body_gameName_update:
  "b_playerName (b\<lparr>b_gameName := g\<rparr>) = b_playerName b"
  "b_note (b\<lparr>b_gameName := g\<rparr>) = b_note b"
  "b_date (b\<lparr>b_gameName := g\<rparr>) = b_date b"
  "b_amount (b\<lparr>b_gameName := g\<rparr>) = b_amount b"
  "b_totalCashout (b\<lparr>b_gameName := g\<rparr>) = b_totalCashout b"
  "b_extraMoney (b\<lparr>b_gameName := g\<rparr>) = b_extraMoney b"
  by simp_all

lemma mergedEntry_gameName:
  "mergedEntry ev (b\<lparr>b_gameName := g\<rparr>) base final e = mergedEntry ev b base final e"
  unfolding mergedEntry_def incomingAmount_def incomingTotalCashout_def incomingExtraMoney_def
    body_gameName_update ..

lemma mergeDeposit_gameName:
  "mergeDeposit ev (b\<lparr>b_gameName := g\<rparr>) base final e st = mergeDeposit ev b base final e st"
  unfolding mergeDeposit_def mergedEntry_gameName ..

text \<open>
  C8. When a request is merged (status 200), the target is the latest deposit of the
  request's user and tag, whatever its game. The merged row keeps the target's
  \<open>gameName\<close>; the balance of that game moves by the difference of the coin effects and
  no other balance moves; and the answer and the new state are the same for every
  non-blank \<open>gameName\<close> in the request.
\<close>

theorem merge_keeps_stored_game:
  assumes "storeInv st" and "fst (createEntry ev b st) = Reply 200 m"
  shows "\<exists>existing.
           findLatestDeposit (cleanUsername b) (cleanPlayerTag b) (entries st) = Some existing \<and>
           username existing = cleanUsername b \<and> playerTag existing = Some (cleanPlayerTag b) \<and>
           entryType existing = ''deposit'' \<and>
           entryId m = entryId existing \<and> gameName m = gameName existing \<and>
           findById (entryId existing) (entries (snd (createEntry ev b st))) = Some m \<and>
           balanceOf (gameName existing) (games (snd (createEntry ev b st))) =
             map_option (\<lambda>x. x + (effectOf m - effectOf existing))
               (balanceOf (gameName existing) (games st)) \<and>
           (\<forall>n. n \<noteq> gameName existing \<longrightarrow>
                balanceOf n (games (snd (createEntry ev b st))) = balanceOf n (games st)) \<and>
           (\<forall>g. trim g \<noteq> [] \<longrightarrow>
                createEntry ev (b\<lparr>b_gameName := Val g\<rparr>) st = createEntry ev b st)"
proof -
  let ?base = "toNumber (b_amountBase b) 0" and ?final = "toNumber (b_amountFinal b) 0"
  from createEntry_merged [OF assms(2)] obtain existing
    where ex: "findLatestDeposit (cleanUsername b) (cleanPlayerTag b) (entries st) = Some existing"
      and cond: "orEmpty (b_type b) = ''deposit'' \<and> cleanPlayerTag b \<noteq> [] \<and> 0 < numericReduction b"
      and eq: "createEntry ev b st = mergeDeposit ev b ?base ?final existing st"
    by blast
  from assms(2) eq have r: "fst (mergeDeposit ev b ?base ?final existing st) = Reply 200 m" by simp
  from mergeDeposit_reply [OF r] have m: "m = mergedEntry ev b ?base ?final existing" by blast
  note stt = mergeDeposit_state [OF r]
  from findLatestDeposit_latest [OF ex]
  have dep: "existing \<in> set (depositsOf (cleanUsername b) (cleanPlayerTag b) (entries st))" by simp
  then have mem: "existing \<in> set (entries st)"
    and key: "username existing = cleanUsername b" "playerTag existing = Some (cleanPlayerTag b)"
      "entryType existing = ''deposit''"
    by (simp_all add: depositsOf_def)
  have same: "entryId m = entryId existing" "gameName m = gameName existing"
    by (simp_all add: m mergedEntry_same)
  have tn: "gameName existing \<noteq> []" "trim (gameName existing) = gameName existing"
    using assms(1) mem by (auto simp: storeInv_def trimmedName_def)
  have "findById (entryId existing) (entries st) = Some existing"
    using assms(1) mem by (simp add: storeInv_def findById_distinct)
  then have found: "findById (entryId existing) (entries (snd (createEntry ev b st))) = Some m"
    by (simp add: eq stt findById_saveEntry same)
  have bal: "balanceOf (gameName existing) (games (snd (createEntry ev b st))) =
             map_option (\<lambda>x. x + (effectOf m - effectOf existing))
               (balanceOf (gameName existing) (games st))"
    using tn by (cases "balanceOf (gameName existing) (games st)")
      (simp_all add: eq stt balanceOf_applyGameDelta)
  have other: "balanceOf n (games (snd (createEntry ev b st))) = balanceOf n (games st)"
    if "n \<noteq> gameName existing" for n
    using tn that by (simp add: eq stt balanceOf_applyGameDelta)
  have indep: "createEntry ev (b\<lparr>b_gameName := Val g\<rparr>) st = createEntry ev b st"
    if g: "trim g \<noteq> []" for g
  proof -
    let ?b = "b\<lparr>b_gameName := Val g\<rparr>"
    note chk = createEntry_checks [OF assms(2)]
    have "createEntry ev ?b st =
           (if orEmpty (b_type ?b) = ''deposit'' \<and> cleanPlayerTag ?b \<noteq> [] \<and> 0 < numericReduction ?b
            then (case findLatestDeposit (cleanUsername ?b) (cleanPlayerTag ?b) (entries st) of
                    Some existing \<Rightarrow> mergeDeposit ev ?b ?base ?final existing st
                  | None \<Rightarrow> insertNew ev ?b ?base ?final st)
            else insertNew ev ?b ?base ?final st)"
      using chk g trim_nonempty [OF g] by (intro createEntry_passed) simp_all
    also have "\<dots> = mergeDeposit ev ?b ?base ?final existing st"
      using cond ex by (simp add: cleanPlayerTag_def cleanUsername_def numericReduction_def)
    also have "\<dots> = createEntry ev b st" by (simp add: eq mergeDeposit_gameName)
    finally show ?thesis .
  qed
  from ex key same found bal other indep show ?thesis by blast
qed

theorem merge_keeps_stored_game_witness:
  "storeInv afterFirstDeposit \<and>
   fst (createEntry exampleEnv secondDeposit afterFirstDeposit) = Reply 200 mergedRow \<and>
   b_gameName secondDeposit = Val ''Y'' \<and> gameName mergedRow = ''X'' \<and>
   balanceOf ''Y'' (games (snd (createEntry exampleEnv secondDeposit afterFirstDeposit))) =
     balanceOf ''Y'' (games afterFirstDeposit) \<and>
   balanceOf ''X'' (games afterFirstDeposit) = Some (- 100) \<and>
   balanceOf ''X'' (games (snd (createEntry exampleEnv secondDeposit afterFirstDeposit))) =
     Some (- 150)"
proof -
  have h1: "storeInv afterFirstDeposit" by code_simp
  have h2: "fst (createEntry exampleEnv secondDeposit afterFirstDeposit) = Reply 200 mergedRow"
    by code_simp
  have v: "b_gameName secondDeposit = Val ''Y'' \<and> gameName mergedRow = ''X'' \<and>
     balanceOf ''X'' (games afterFirstDeposit) = Some (- 100) \<and>
     balanceOf ''X'' (games (snd (createEntry exampleEnv secondDeposit afterFirstDeposit))) =
       Some (- 150)" by code_simp
  from merge_keeps_stored_game [OF h1 h2] obtain existing :: entry
    where "gameName mergedRow = gameName existing"
      and "\<forall>n. n \<noteq> gameName existing \<longrightarrow>
             balanceOf n (games (snd (createEntry exampleEnv secondDeposit afterFirstDeposit))) =
             balanceOf n (games afterFirstDeposit)"
    by blast
  moreover have "''Y'' \<noteq> gameName mergedRow" by code_simp
  ultimately have "balanceOf ''Y'' (games (snd (createEntry exampleEnv secondDeposit afterFirstDeposit))) =
     balanceOf ''Y'' (games afterFirstDeposit)" by simp
  with h1 h2 v show ?thesis by blast
qed

subsection \<open>The default branch stores the caller's pending fields\<close>

text \<open>
  C9. An entry created by the default branch (status 201) is appended to the
  collection with \<open>reduction = toNumber(reduction, 0)\<close> and
  \<open>isPending = Boolean(isPending)\<close> of the request, whatever its type; the two
  stored fields are not tied to each other.
\<close>

theorem created_entry_keeps_input_pending_fields:
  assumes "fst (createEntry ev b st) = Reply 201 doc"
  shows "entries (snd (createEntry ev b st)) = entries st @ [doc] \<and>
         reduction doc = Some (toNumber (b_reduction b) 0) \<and>
         isPending doc = Boolean (b_isPending b)"
proof -
  let ?base = "toNumber (b_amountBase b) 0" and ?final = "toNumber (b_amountFinal b) 0"
  note eq = createEntry_created [OF assms]
  with assms have "fst (insertNew ev b ?base ?final st) = Reply 201 doc" by simp
  from insertNew_reply [OF this] show ?thesis
    by (simp add: eq newEntry_def numericReduction_def)
qed

theorem created_entry_keeps_input_pending_fields_witness:
  "fst (createEntry exampleEnv firstDeposit twoGames) = Reply 201 firstRow \<and>
   entries (snd (createEntry exampleEnv firstDeposit twoGames)) = entries twoGames @ [firstRow] \<and>
   reduction firstRow = Some (toNumber (b_reduction firstDeposit) 0) \<and>
   isPending firstRow = Boolean (b_isPending firstDeposit) \<and>
   reduction firstRow = Some 200 \<and> isPending firstRow = False"
proof -
  have h: "fst (createEntry exampleEnv firstDeposit twoGames) = Reply 201 firstRow" by code_simp
  have v: "reduction firstRow = Some 200 \<and> isPending firstRow = False" by code_simp
  from created_entry_keeps_input_pending_fields [OF h] h v show ?thesis by blast
qed

text \<open>
  The other way round: a redeem created with \<open>isPending\<close> set and no reduction is stored
  pending with a reduction of zero.
\<close>

lemma created_pending_without_reduction:
  "map (\<lambda>e. (reduction e, isPending e))
     (entries (snd (createEntry exampleEnv (exampleRedeem\<lparr>b_isPending := Val True\<rparr>) twoGames))) =
   [(Some 0, True)]"
  by code_simp

subsection \<open>Clearing a pending amount twice\<close>

lemma saveEntry_twice: "saveEntry e' (saveEntry e' es) = saveEntry e' es"
  by (induction es) (auto simp: saveEntry_def)

lemma clearedEntry_twice: "clearedEntry (clearedEntry e) = clearedEntry e"
  by (simp add: clearedEntry_def)

lemma nonNegative_Some: "nonNegative (Some v) = (0 \<le> v)"
  by (simp add: nonNegative_def)

lemma schemaValid_clearedEntry: "schemaValid e \<Longrightarrow> schemaValid (clearedEntry e)"
  by (auto simp: schemaValid_def clearedEntry_def nonNegative_Some split: option.splits)

text \<open>
  C6. For a stored entry that satisfies the schema, clear-pending answers with the
  entry whose pending fields are zeroed (a redeem: \<open>remainingPay\<close> and \<open>isPending\<close>;
  a deposit: \<open>reduction\<close> and \<open>isPending\<close>; any other type: all three), and a second
  call gives the same answer and leaves the entries as the first call left them.
  \<open>amountFinal\<close> and the games are as before the first call.
\<close>

theorem clearPending_idempotent:
  assumes "findById i (entries st) = Some e" and "schemaValid e"
    and "clearPending ev i st = (r1, st1)" and "clearPending ev' i st1 = (r2, st2)"
  shows "r1 = Reply 200 (clearedEntry e) \<and> r2 = r1 \<and>
         findById i (entries st1) = Some (clearedEntry e) \<and>
         entries st2 = entries st1 \<and> games st2 = games st1 \<and> games st1 = games st \<and>
         amountFinal (clearedEntry e) = amountFinal e \<and> \<not> isPending (clearedEntry e) \<and>
         (if entryType e = ''redeem''
          then remainingPay (clearedEntry e) = Some 0 \<and> reduction (clearedEntry e) = reduction e
          else if entryType e = ''deposit''
          then reduction (clearedEntry e) = Some 0 \<and> remainingPay (clearedEntry e) = remainingPay e
          else remainingPay (clearedEntry e) = Some 0 \<and> reduction (clearedEntry e) = Some 0)"
proof -
  have id: "entryId (clearedEntry e) = i"
    using assms(1) by (simp add: clearedEntry_same findById_in)
  have v: "schemaValid (clearedEntry e)" using assms(2) by (rule schemaValid_clearedEntry)
  have one: "r1 = Reply 200 (clearedEntry e)" "entries st1 = saveEntry (clearedEntry e) (entries st)"
    "games st1 = games st"
    using assms(1,3) v by (auto simp: clearPending_def Let_def)
  have found: "findById i (entries st1) = Some (clearedEntry e)"
    using assms(1) id by (simp add: one findById_saveEntry)
  have two: "r2 = Reply 200 (clearedEntry e)" "entries st2 = saveEntry (clearedEntry e) (entries st1)"
    "games st2 = games st1"
    using assms(4) found v by (auto simp: clearPending_def Let_def clearedEntry_twice)
  have "entries st2 = entries st1" by (simp add: two one saveEntry_twice)
  moreover have "amountFinal (clearedEntry e) = amountFinal e \<and> \<not> isPending (clearedEntry e)"
    by (simp add: clearedEntry_def)
  moreover have "(if entryType e = ''redeem''
          then remainingPay (clearedEntry e) = Some 0 \<and> reduction (clearedEntry e) = reduction e
          else if entryType e = ''deposit''
          then reduction (clearedEntry e) = Some 0 \<and> remainingPay (clearedEntry e) = remainingPay e
          else remainingPay (clearedEntry e) = Some 0 \<and> reduction (clearedEntry e) = Some 0)"
    by (simp add: clearedEntry_def)
  ultimately show ?thesis using one two found by simp
qed

theorem clearPending_idempotent_witness:
  "findById 0 (entries afterFirstDeposit) = Some firstRow \<and> schemaValid firstRow \<and>
   fst (clearPending exampleEnv 0 afterFirstDeposit) = Reply 200 (clearedEntry firstRow) \<and>
   fst (clearPending exampleEnv 0 (snd (clearPending exampleEnv 0 afterFirstDeposit))) =
     fst (clearPending exampleEnv 0 afterFirstDeposit) \<and>
   entries (snd (clearPending exampleEnv 0 (snd (clearPending exampleEnv 0 afterFirstDeposit)))) =
     entries (snd (clearPending exampleEnv 0 afterFirstDeposit)) \<and>
   games (snd (clearPending exampleEnv 0 (snd (clearPending exampleEnv 0 afterFirstDeposit)))) =
     games afterFirstDeposit \<and>
   reduction firstRow = Some 200 \<and> reduction (clearedEntry firstRow) = Some 0"
proof -
  have h1: "findById 0 (entries afterFirstDeposit) = Some firstRow" by code_simp
  have h2: "schemaValid firstRow" by code_simp
  have v: "reduction firstRow = Some 200 \<and> reduction (clearedEntry firstRow) = Some 0"
    by code_simp
  from clearPending_idempotent [OF h1 h2 prod.collapse [symmetric] prod.collapse [symmetric],
      of exampleEnv exampleEnv] h1 h2 v
  show ?thesis by simp
qed

subsection \<open>A rejected history write\<close>

lemma env_histOk_update:
  "parseDate (ev\<lparr>histOk := h\<rparr>) = parseDate ev" "now (ev\<lparr>histOk := h\<rparr>) = now ev"
  by simp_all

lemma mergedEntry_histOk:
  "mergedEntry (ev\<lparr>histOk := h\<rparr>) b base final e = mergedEntry ev b base final e"
  unfolding mergedEntry_def env_histOk_update ..

lemma newEntry_histOk:
  "newEntry (ev\<lparr>histOk := h\<rparr>) b base final k = newEntry ev b base final k"
  unfolding newEntry_def env_histOk_update ..

lemma assignFields_histOk:
  "assignFields (ev\<lparr>histOk := h\<rparr>) b e = assignFields ev b e"
  unfolding assignFields_def env_histOk_update ..

lemma mergeDeposit_histOk:
  "outcome (mergeDeposit (ev\<lparr>histOk := h\<rparr>) b base final e st) =
   outcome (mergeDeposit ev b base final e st)"
  by (simp add: mergeDeposit_def Let_def mergedEntry_histOk outcome_def)

lemma insertNew_histOk:
  "outcome (insertNew (ev\<lparr>histOk := h\<rparr>) b base final st) =
   outcome (insertNew ev b base final st)"
  by (simp add: insertNew_def Let_def newEntry_histOk outcome_def)

lemma createEntry_histOk:
  "outcome (createEntry (ev\<lparr>histOk := h\<rparr>) b st) = outcome (createEntry ev b st)"
  by (simp add: createEntry_def mergeDeposit_histOk insertNew_histOk
      if_distrib [of outcome] option.case_distrib [of outcome]
      split del: if_split cong: if_cong option.case_cong)

lemma updateEntry_histOk:
  "outcome (updateEntry (ev\<lparr>histOk := h\<rparr>) i b st) = outcome (updateEntry ev i b st)"
  by (simp add: updateEntry_def Let_def assignFields_histOk outcome_def
      if_distrib [of fst] option.case_distrib [of fst]
      if_distrib [of snd] option.case_distrib [of snd]
      if_distrib [of entries] option.case_distrib [of entries]
      if_distrib [of games] option.case_distrib [of games]
      if_distrib [of nextId] option.case_distrib [of nextId]
      split del: if_split cong: if_cong option.case_cong)

lemma deleteEntry_histOk:
  "outcome (deleteEntry (ev\<lparr>histOk := h\<rparr>) i st) = outcome (deleteEntry ev i st)"
  by (simp add: deleteEntry_def Let_def outcome_def split: option.split)

lemma clearPending_histOk:
  "outcome (clearPending (ev\<lparr>histOk := h\<rparr>) i st) = outcome (clearPending ev i st)"
  by (simp add: clearPending_def Let_def outcome_def split: option.split)

text \<open>
  C7. Whether the history collection accepts or rejects the write, each of create
  (the default branch and the merge branch), update, delete and clear-pending gives
  the same reply and the same entries, games and next id.
\<close>

theorem history_failure_is_swallowed:
  "outcome (createEntry (ev\<lparr>histOk := False\<rparr>) b st) =
     outcome (createEntry (ev\<lparr>histOk := True\<rparr>) b st) \<and>
   outcome (mergeDeposit (ev\<lparr>histOk := False\<rparr>) b base final e st) =
     outcome (mergeDeposit (ev\<lparr>histOk := True\<rparr>) b base final e st) \<and>
   outcome (updateEntry (ev\<lparr>histOk := False\<rparr>) i b st) =
     outcome (updateEntry (ev\<lparr>histOk := True\<rparr>) i b st) \<and>
   outcome (deleteEntry (ev\<lparr>histOk := False\<rparr>) i st) =
     outcome (deleteEntry (ev\<lparr>histOk := True\<rparr>) i st) \<and>
   outcome (clearPending (ev\<lparr>histOk := False\<rparr>) i st) =
     outcome (clearPending (ev\<lparr>histOk := True\<rparr>) i st)"
  by (simp add: createEntry_histOk updateEntry_histOk deleteEntry_histOk clearPending_histOk
      mergeDeposit_histOk)

theorem history_failure_is_swallowed_witness:
  "outcome (createEntry (exampleEnv\<lparr>histOk := False\<rparr>) secondDeposit afterFirstDeposit) =
     outcome (createEntry (exampleEnv\<lparr>histOk := True\<rparr>) secondDeposit afterFirstDeposit) \<and>
   fst (createEntry (exampleEnv\<lparr>histOk := False\<rparr>) secondDeposit afterFirstDeposit) =
     Reply 200 mergedRow \<and>
   map histAction (history (snd (createEntry (exampleEnv\<lparr>histOk := False\<rparr>)
     secondDeposit afterFirstDeposit))) = [''create''] \<and>
   map histAction (history (snd (createEntry (exampleEnv\<lparr>histOk := True\<rparr>)
     secondDeposit afterFirstDeposit))) = [''create'', ''update-merge'']"
proof -
  have "fst (createEntry (exampleEnv\<lparr>histOk := False\<rparr>) secondDeposit afterFirstDeposit) =
     Reply 200 mergedRow" by code_simp
  moreover have "map histAction (history (snd (createEntry (exampleEnv\<lparr>histOk := False\<rparr>)
     secondDeposit afterFirstDeposit))) = [''create'']" by code_simp
  moreover have "map histAction (history (snd (createEntry (exampleEnv\<lparr>histOk := True\<rparr>)
     secondDeposit afterFirstDeposit))) = [''create'', ''update-merge'']" by code_simp
  ultimately show ?thesis
    using history_failure_is_swallowed [of exampleEnv secondDeposit afterFirstDeposit] by blast
qed

subsection \<open>The grouping loop, key by key\<close>





























subsection \<open>Entries without a player tag\<close>






subsection \<open>The priority of the deposit, and the key of a group\<close>

text \<open>The rule of one group, as the claim words it.\<close>

lemma resolveGroup_priority:
  "resolveGroup grp =
     (case lastDeposit grp of
        Some d \<Rightarrow>
          if 0 < nullish (reduction d) 0
          then Some (buildRow d (nullish (reduction d) 0) (nullish (reduction d) 0)) else None
      | None \<Rightarrow>
          (case lastRedeem grp of
             Some r \<Rightarrow>
               if isPending r \<and> 0 < redeemPending r then Some (buildRow r (redeemPending r) 0)
               else None
           | None \<Rightarrow> None))"
proof (cases "lastDeposit grp")
  case None
  then show ?thesis
    by (cases "lastRedeem grp") (auto simp: resolveGroup_def Let_def not_le)
next
  case (Some d)
  then show ?thesis
    by (cases "reduction d") (auto simp: resolveGroup_def Let_def not_le)
qed

lemma redeemPending_eq:
  "redeemPending r =
     nullish (remainingPay r)
       (nullish (totalCashout r) (nullish (amountFinal r) 0) - nullish (totalPaid r) 0)"
  by (simp add: redeemPending_def Let_def)

text \<open>Within one user the key separates the tags.\<close>

lemma tagKey_same_user:
  "username e = username e' \<Longrightarrow>
   tagKey e = tagKey e' \<longleftrightarrow> orBlank (playerTag e) = orBlank (playerTag e')"
  by (simp add: tagKey_def)

lemma groupOf_one_user:
  assumes "\<forall>e\<in>set docs. username e = u"
  shows "groupOf (u @ ''::'' @ t) docs =
     \<lparr>lastRedeem = lastWhere (\<lambda>e. orBlank (playerTag e) = t \<and> entryType e = ''redeem'') docs,
      lastDeposit = lastWhere (\<lambda>e. orBlank (playerTag e) = t \<and> entryType e = ''deposit'') docs\<rparr>"
proof -
  have "lastWhere (\<lambda>e. tagKey e = u @ ''::'' @ t \<and> P e) docs =
        lastWhere (\<lambda>e. orBlank (playerTag e) = t \<and> P e) docs" for P
    unfolding lastWhere_def using assms
    by (intro find_cong) (auto simp: tagKey_def)
  then show ?thesis by (simp add: groupOf_def)
qed

text \<open>
  The spec's scenario: a pending redeem with 50 to pay, then a deposit with no
  reduction for the same user and tag. The tag is not listed; before the deposit it was.
\<close>

lemma stale_redeem_suppressed:
  "listPending (Val ''ann'') staleEntries = [] \<and>
   map (\<lambda>r. (p_username r, p_playerTag r, p_remainingPay r))
     (listPending (Val ''ann'') (take 1 staleEntries)) = [(''ann'', ''t1'', 50)]"
  by code_simp

text \<open>
  C3. The resolver works key by key (\<open>pendingRows_keys\<close>, \<open>resolveGroup_priority\<close>),
  and within one user a key is a tag (\<open>groupOf_one_user\<close>). Over all users the key is
  not the pair: user a with tag b::c and user a::b with tag c have the same key
  \<open>a::b::c\<close>. The pending redeem of the first is listed with 50 while it is alone; once
  the second user's deposit with no reduction is stored, the redeem of the first user
  is no longer listed.
\<close>

theorem pending_key_collision:
  "map tagKey collidingEntries = [''a::b::c'', ''a::b::c''] \<and>
   map (\<lambda>e. (username e, playerTag e, entryType e, isPending e, remainingPay e, reduction e))
     collidingEntries =
     [(''a'', Some ''b::c'', ''redeem'', True, Some 50, Some 0),
      (''a::b'', Some ''c'', ''deposit'', False, Some 0, Some 0)] \<and>
   listPending Undefined collidingEntries = [] \<and>
   map (\<lambda>r. (p_username r, p_playerTag r, p_remainingPay r))
     (listPending Undefined (take 1 collidingEntries)) = [(''a'', ''b::c'', 50)]"
  by code_simp

subsection \<open>Pending by tag\<close>










subsection \<open>The totals of the summary\<close>








end
